theory Spec2Isabelle
  imports Main "HOL-Library.Word"
begin

section \<open>The HTTP / HTTP3 server wrapper of transport/http\<close>

text \<open>
  A shallow embedding of \<^verbatim>\<open>transport/http/http3.go\<close> (the \<^verbatim>\<open>Server\<close> struct, its options,
  \<^verbatim>\<open>NewServer\<close>, \<^verbatim>\<open>WalkRoute\<close>, the route registration methods, \<^verbatim>\<open>ServeHTTP\<close>, \<^verbatim>\<open>filter\<close>,
  \<^verbatim>\<open>Endpoint\<close>, \<^verbatim>\<open>Start\<close>, \<^verbatim>\<open>Stop\<close>, \<^verbatim>\<open>listenAndEndpoint\<close> and \<^verbatim>\<open>handleEndpoint\<close>).

  The server mutates its own fields and talks to the operating system and to two
  library servers. Mutation is explicit state passing on the record \<open>Server\<close>. Every call
  that leaves the package (binding a listener, extracting a host, serving, closing) is
  answered by an environment \<open>env\<close> and appended to the field \<open>trace\<close>, so that "was a bind
  attempted" and "was serve attempted" are questions about the trace. The environment is
  indexed by the length of the trace at the moment of the call: the same call may be
  answered differently the second time, as a real network does.
\<close>

subsection \<open>Errors\<close>

text \<open>
  Go errors are values compared by identity. \<open>ErrServerClosed\<close> is the sentinel
  \<^verbatim>\<open>http.ErrServerClosed\<close>; \<open>ErrorsNew m\<close> is an error made by \<^verbatim>\<open>errors.New(m)\<close> inside this
  package; \<open>ErrExternal m\<close> is an error value produced by a collaborator (net, quic-go,
  host, mux, a callback); \<open>ErrWrap m e\<close> is an error whose \<^verbatim>\<open>Unwrap\<close> gives \<open>e\<close>.
\<close>

datatype error =
    ErrServerClosed
  | ErrorsNew string
  | ErrExternal string
  | ErrWrap string error

text \<open>\<^verbatim>\<open>errors.Is(err, target)\<close>: walk the \<^verbatim>\<open>Unwrap\<close> chain of a non-nil error.\<close>

fun chain_Is :: "error \<Rightarrow> error \<Rightarrow> bool" where
  "chain_Is (ErrWrap m e) target = (ErrWrap m e = target \<or> chain_Is e target)"
| "chain_Is e target = (e = target)"

fun errors_Is :: "error option \<Rightarrow> error \<Rightarrow> bool" where
  "errors_Is None target = False"
| "errors_Is (Some e) target = chain_Is e target"

text \<open>A Go call either returns or panics (nil pointer dereference).\<close>

datatype 'a result = Return 'a | Panic string

subsection \<open>Data\<close>

text \<open>\<^verbatim>\<open>time.Duration\<close> is a signed 64-bit count of nanoseconds.\<close>

type_synonym Duration = "64 word"

definition time_Second :: Duration where
  "time_Second = 1000000000"

text \<open>\<^verbatim>\<open>*tls.Config\<close>: opaque material; \<open>ConfigureTLSConfig c\<close> is the value
  \<^verbatim>\<open>http3.ConfigureTLSConfig(c)\<close> builds around a possibly nil configuration.\<close>

datatype tls_Config =
    TlsMaterial string
  | ConfigureTLSConfig "tls_Config option"

text \<open>Listeners, seen through \<^verbatim>\<open>Addr()\<close>: the address actually bound.\<close>

record net_Listener =
  tcp_Addr :: string

record QUICEarlyListener =
  quic_Addr :: string

record url_URL =
  url_Scheme :: string
  url_Host :: string


type_synonym header = "(string \<times> string list) list"

record Transport =
  operation :: string
  pathTemplate :: string
  reqHeader :: header
  replyHeader :: header
  tr_endpoint :: string

text \<open>
  \<^verbatim>\<open>context.Context\<close> as the tree of its constructors. \<open>NewServerContext c tr\<close> is
  \<^verbatim>\<open>transport.NewServerContext(c, tr)\<close>. The field \<^verbatim>\<open>request\<close> of the Go \<^verbatim>\<open>Transport\<close> points
  back to the request that carries this context; the cycle is left implicit.
\<close>

datatype Context =
    Background
  | WithValue Context string string
  | WithTimeout Context Duration
  | WithCancel Context
  | NewServerContext Context Transport

text \<open>
  An \<^verbatim>\<open>http.Handler\<close> value, by what it is: the process-wide default mux, a handler of
  the application, the chain \<^verbatim>\<open>FilterChain(fs...)(srv.router)\<close> that \<^verbatim>\<open>NewServer\<close> builds, or one
  of the router library's own handlers for a miss.
\<close>

datatype Handler =
    DefaultServeMux
  | UserHandler string
  | FilterChainRouter "string list"
  | mux_notFound
  | mux_methodNotAllowed

text \<open>
  A \<^verbatim>\<open>*mux.Route\<close> as this package sees it: what \<^verbatim>\<open>GetMethods()\<close> and \<^verbatim>\<open>GetPathTemplate()\<close>
  return (a value and an error, as Go returns both).
\<close>

record mux_Route =
  GetMethods :: "string list \<times> error option"
  GetPathTemplate :: "string \<times> error option"
  rt_handler :: "Handler option"

datatype mux_MiddlewareFunc = ServerFilter

record mux_Router =
  rt_prefix :: string
  rt_strictSlash :: bool
  NotFoundHandler :: "Handler option"
  MethodNotAllowedHandler :: "Handler option"
  rt_middlewares :: "mux_MiddlewareFunc list"
  rt_routes :: "mux_Route list"



record http_Server =
  h_TLSConfig :: "tls_Config option"
  h_Handler :: Handler
  h_BaseContext :: "Context option"

record http3_Server =
  h3_TLSConfig :: "tls_Config option"
  h3_Handler :: Handler

datatype DecodeRequestFunc =
    DefaultRequestVars | DefaultRequestQuery | DefaultRequestDecoder | CustomDecoder string

datatype EncodeResponseFunc = DefaultResponseEncoder | CustomResponseEncoder string

datatype EncodeErrorFunc = DefaultErrorEncoder | CustomErrorEncoder string

text \<open>The \<^verbatim>\<open>matcher.Matcher\<close> of service middleware, as the calls made on it.\<close>

datatype matcher_call = MatcherUse "string list" | MatcherAdd string "string list"

text \<open>
  Calls that leave the package, in the order they happen. The last field of the record
  \<open>Server\<close> below, \<open>trace\<close>, holds them; it is the only field that the Go struct does
  not have.
\<close>

datatype event =
    EvListen string string
  | EvListenAddrEarly string tls_Config
  | EvExtract string "string option"
  | EvServe string
  | EvServeTLS string
  | EvServeListener string
  | EvShutdown Context
  | EvClose
  | EvLog string

record Server =
  httpsrv :: "http_Server option"
  lis :: "net_Listener option"
  tlsConf :: "tls_Config option"
  endpoint :: "url_URL option"
  err :: "error option"
  network :: string
  address :: string
  timeout :: Duration
  filters :: "string list"
  middleware :: "matcher_call list"
  decVars :: DecodeRequestFunc
  decQuery :: DecodeRequestFunc
  decBody :: DecodeRequestFunc
  enc :: EncodeResponseFunc
  ene :: EncodeErrorFunc
  strictSlash :: bool
  router :: mux_Router
  enableHttp3 :: bool
  http3Lis :: "QUICEarlyListener option"
  http3srv :: "http3_Server option"
  trace :: "event list"

text \<open>
  The environment. The first argument of every function is the length of the trace at
  the call. \<open>host_Extract\<close> is \<^verbatim>\<open>host.Extract(hostPort, ln)\<close> of internal/host, whose second
  argument is the listener seen through \<^verbatim>\<open>Addr()\<close>, \<open>None\<close> for a nil interface value. The
  three serve functions give what the blocking serve call finally returns.
\<close>

record env =
  net_Listen :: "nat \<Rightarrow> string \<Rightarrow> string \<Rightarrow> error + net_Listener"
  quic_ListenAddrEarly :: "nat \<Rightarrow> string \<Rightarrow> tls_Config \<Rightarrow> error + QUICEarlyListener"
  host_Extract :: "nat \<Rightarrow> string \<Rightarrow> string option \<Rightarrow> error + string"
  httpsrv_Serve :: "nat \<Rightarrow> net_Listener \<Rightarrow> error option"
  httpsrv_ServeTLS :: "nat \<Rightarrow> net_Listener \<Rightarrow> error option"
  http3srv_ServeListener :: "nat \<Rightarrow> QUICEarlyListener \<Rightarrow> error option"
  httpsrv_Shutdown :: "nat \<Rightarrow> Context \<Rightarrow> error option"
  http3srv_Close :: "nat \<Rightarrow> error option"

definition emit :: "event \<Rightarrow> Server \<Rightarrow> Server" where
  "emit ev s = s\<lparr>trace := trace s @ [ev]\<rparr>"

subsection \<open>Endpoint resolution\<close>

text \<open>
  Modelled from the spec: \<^verbatim>\<open>endpoint.Scheme\<close> and \<^verbatim>\<open>endpoint.NewEndpoint\<close> of internal/endpoint
  are not among the sources. The spec: "combine with scheme https (TLS configured) or http
  (not configured) into the Endpoint", and "Endpoint URL: scheme://host:port".
\<close>

definition endpoint_Scheme :: "string \<Rightarrow> bool \<Rightarrow> string" where
  "endpoint_Scheme scheme isSecure = (if isSecure then scheme @ ''s'' else scheme)"

definition endpoint_NewEndpoint :: "string \<Rightarrow> string \<Rightarrow> url_URL" where
  "endpoint_NewEndpoint scheme host = \<lparr>url_Scheme = scheme, url_Host = host\<rparr>"

definition handleEndpoint :: "env \<Rightarrow> string option \<Rightarrow> Server \<Rightarrow> error option \<times> Server" where
  "handleEndpoint E ln s =
     (if endpoint s = None then
        (case host_Extract E (length (trace s)) (address s) ln of
           Inl e \<Rightarrow> (Some e, (emit (EvExtract (address s) ln) s)\<lparr>err := Some e\<rparr>)
         | Inr addr \<Rightarrow>
             (None, (emit (EvExtract (address s) ln) s)
                \<lparr>endpoint := Some (endpoint_NewEndpoint
                                     (endpoint_Scheme ''http'' (tlsConf s \<noteq> None)) addr)\<rparr>))
      else (None, s))"

text \<open>
  The first statement of \<^verbatim>\<open>listenAndEndpoint\<close>: bind the listener of the active mode when
  the Server holds none.
\<close>

definition bindListener :: "env \<Rightarrow> Server \<Rightarrow> error option \<times> Server" where
  "bindListener E s =
     (if enableHttp3 s then
        (if http3Lis s = None then
           (case quic_ListenAddrEarly E (length (trace s)) (address s)
                   (ConfigureTLSConfig (tlsConf s)) of
              Inl e \<Rightarrow>
                (Some e, (emit (EvListenAddrEarly (address s) (ConfigureTLSConfig (tlsConf s))) s)
                            \<lparr>err := Some e\<rparr>)
            | Inr l \<Rightarrow>
                (None, (emit (EvListenAddrEarly (address s) (ConfigureTLSConfig (tlsConf s))) s)
                          \<lparr>http3Lis := Some l\<rparr>))
         else (None, s))
      else
        (if lis s = None then
           (case net_Listen E (length (trace s)) (network s) (address s) of
              Inl e \<Rightarrow> (Some e, (emit (EvListen (network s) (address s)) s)\<lparr>err := Some e\<rparr>)
            | Inr l \<Rightarrow> (None, (emit (EvListen (network s) (address s)) s)\<lparr>lis := Some l\<rparr>))
         else (None, s)))"

text \<open>
  \<^verbatim>\<open>listenAndEndpoint\<close>: after the bind, \<^verbatim>\<open>s.handleEndpoint(s.http3Lis)\<close> in both modes, then
  \<^verbatim>\<open>return s.err\<close>.
\<close>

definition listenAndEndpoint :: "env \<Rightarrow> Server \<Rightarrow> error option \<times> Server" where
  "listenAndEndpoint E s =
     (case bindListener E s of
        (Some e, s1) \<Rightarrow> (Some e, s1)
      | (None, s1) \<Rightarrow>
          (case handleEndpoint E (map_option quic_Addr (http3Lis s1)) s1 of
             (Some e, s2) \<Rightarrow> (Some e, s2)
           | (None, s2) \<Rightarrow> (err s2, s2)))"

text \<open>\<^verbatim>\<open>Endpoint()\<close> returns \<^verbatim>\<open>(nil, err)\<close> or \<^verbatim>\<open>(s.endpoint, nil)\<close>.\<close>

definition Endpoint :: "env \<Rightarrow> Server \<Rightarrow> (error + url_URL option) \<times> Server" where
  "Endpoint E s =
     (case listenAndEndpoint E s of
        (Some e, s1) \<Rightarrow> (Inl e, s1)
      | (None, s1) \<Rightarrow> (Inr (endpoint s1), s1))"

subsection \<open>Start and Stop\<close>

definition startHTTP :: "env \<Rightarrow> Context \<Rightarrow> Server \<Rightarrow> error option result \<times> Server" where
  "startHTTP E ctx s =
     (case listenAndEndpoint E s of
        (Some e, s1) \<Rightarrow> (Return (Some e), s1)
      | (None, s1) \<Rightarrow>
          (case httpsrv s1 of
             None \<Rightarrow> (Panic ''nil pointer dereference: s.httpsrv'', s1)
           | Some h \<Rightarrow>
               (case lis s1 of
                  None \<Rightarrow> (Panic ''nil pointer dereference: s.lis'',
                            s1\<lparr>httpsrv := Some (h\<lparr>h_BaseContext := Some ctx\<rparr>)\<rparr>)
                | Some l \<Rightarrow>
                    (let s2 = emit (EvLog (''[HTTP] server listening on: '' @ tcp_Addr l))
                                (s1\<lparr>httpsrv := Some (h\<lparr>h_BaseContext := Some ctx\<rparr>)\<rparr>)
                     in if tlsConf s2 \<noteq> None
                        then (Return (httpsrv_ServeTLS E (length (trace s2)) l),
                              emit (EvServeTLS (tcp_Addr l)) s2)
                        else (Return (httpsrv_Serve E (length (trace s2)) l),
                              emit (EvServe (tcp_Addr l)) s2)))))"

definition startHTTP3 :: "env \<Rightarrow> Context \<Rightarrow> Server \<Rightarrow> error option result \<times> Server" where
  "startHTTP3 E ctx s =
     (case listenAndEndpoint E s of
        (Some e, s1) \<Rightarrow> (Return (Some e), s1)
      | (None, s1) \<Rightarrow>
          (if tlsConf s1 = None
           then (Return (Some (ErrorsNew ''[HTTP3], TLS is required'')), s1)
           else
             (case http3Lis s1 of
                None \<Rightarrow> (Panic ''nil pointer dereference: s.http3Lis'', s1)
              | Some l \<Rightarrow>
                  (let s2 = emit (EvLog (''[HTTP3] server listening on: '' @ quic_Addr l)) s1
                   in case http3srv s2 of
                        None \<Rightarrow> (Panic ''nil pointer dereference: s.http3srv'', s2)
                      | Some h \<Rightarrow>
                          (Return (http3srv_ServeListener E (length (trace s2)) l),
                           emit (EvServeListener (quic_Addr l)) s2)))))"

definition Start :: "env \<Rightarrow> Context \<Rightarrow> Server \<Rightarrow> error option result \<times> Server" where
  "Start E ctx s =
     (case (if enableHttp3 s then startHTTP3 E ctx s else startHTTP E ctx s) of
        (Panic m, s1) \<Rightarrow> (Panic m, s1)
      | (Return e, s1) \<Rightarrow>
          (if \<not> errors_Is e ErrServerClosed then (Return e, s1) else (Return None, s1)))"

definition Stop :: "env \<Rightarrow> Context \<Rightarrow> Server \<Rightarrow> error option result \<times> Server" where
  "Stop E ctx s =
     (if enableHttp3 s then
        (case http3srv s of
           None \<Rightarrow> (Panic ''nil pointer dereference: s.http3srv'',
                     emit (EvLog ''[HTTP3] server stopping'') s)
         | Some h \<Rightarrow>
             (Return (http3srv_Close E (Suc (length (trace s)))),
              emit EvClose (emit (EvLog ''[HTTP3] server stopping'') s)))
      else
        (case httpsrv s of
           None \<Rightarrow> (Panic ''nil pointer dereference: s.httpsrv'',
                     emit (EvLog ''[HTTP] server stopping'') s)
         | Some h \<Rightarrow>
             (Return (httpsrv_Shutdown E (Suc (length (trace s))) ctx),
              emit (EvShutdown ctx) (emit (EvLog ''[HTTP] server stopping'') s))))"

subsection \<open>The request pipeline\<close>








text \<open>\<^verbatim>\<open>ServeHTTP\<close> hands the request to the handler of the active backend.\<close>

definition ServeHTTP :: "Server \<Rightarrow> Handler result" where
  "ServeHTTP s =
     (if enableHttp3 s then
        (case http3srv s of
           None \<Rightarrow> Panic ''nil pointer dereference: s.http3srv''
         | Some h \<Rightarrow> Return (h3_Handler h))
      else
        (case httpsrv s of
           None \<Rightarrow> Panic ''nil pointer dereference: s.httpsrv''
         | Some h \<Rightarrow> Return (h_Handler h)))"

subsection \<open>Walking the routes\<close>

record RouteInfo =
  Method :: string
  Path :: string

text \<open>
  A walk callback may have effects of its own (logging, collecting): it takes and returns
  a state \<open>'st\<close> besides its error.
\<close>

type_synonym 'st WalkRouteFunc = "RouteInfo \<Rightarrow> 'st \<Rightarrow> error option \<times> 'st"

text \<open>The loop \<^verbatim>\<open>for _, method := range methods\<close> of the walk function.\<close>

fun rangeMethods :: "'st WalkRouteFunc \<Rightarrow> string \<Rightarrow> string list \<Rightarrow> 'st \<Rightarrow> error option \<times> 'st" where
  "rangeMethods fn path [] st = (None, st)"
| "rangeMethods fn path (method # methods) st =
     (case fn \<lparr>Method = method, Path = path\<rparr> st of
        (Some e, st1) \<Rightarrow> (Some e, st1)
      | (None, st1) \<Rightarrow> rangeMethods fn path methods st1)"

text \<open>The function literal that \<^verbatim>\<open>WalkRoute\<close> passes to \<^verbatim>\<open>s.router.Walk\<close>.\<close>

definition walkFn :: "'st WalkRouteFunc \<Rightarrow> mux_Route \<Rightarrow> 'st \<Rightarrow> error option \<times> 'st" where
  "walkFn fn route st =
     (case GetMethods route of
        (methods, Some e) \<Rightarrow> (None, st)
      | (methods, None) \<Rightarrow>
          (case GetPathTemplate route of
             (path, Some e) \<Rightarrow> (Some e, st)
           | (path, None) \<Rightarrow> rangeMethods fn path methods st))"

text \<open>
  Modelled from the spec: \<^verbatim>\<open>(*mux.Router).Walk\<close> belongs to the router library and is not
  among the sources. The spec: "a traversal operation yielding (method, path-template,
  ancestors) triples", which "aborts and propagates the first callback error". The routes
  of the tree are taken in the order of the walk.
\<close>

fun mux_Walk :: "(mux_Route \<Rightarrow> 'st \<Rightarrow> error option \<times> 'st) \<Rightarrow> mux_Route list \<Rightarrow> 'st \<Rightarrow> error option \<times> 'st" where
  "mux_Walk f [] st = (None, st)"
| "mux_Walk f (route # routes) st =
     (case f route st of
        (Some e, st1) \<Rightarrow> (Some e, st1)
      | (None, st1) \<Rightarrow> mux_Walk f routes st1)"

definition WalkRoute :: "Server \<Rightarrow> 'st WalkRouteFunc \<Rightarrow> 'st \<Rightarrow> error option \<times> 'st" where
  "WalkRoute s fn st = mux_Walk (walkFn fn) (rt_routes (router s)) st"

text \<open>
  The claim's words, for comparison: the (method, path template) pairs of a route, none
  when its methods cannot be resolved; and a run of the callback over a list of pairs that
  stops at the first error.
\<close>

definition routeInfos :: "mux_Route \<Rightarrow> RouteInfo list" where
  "routeInfos route =
     (case snd (GetMethods route) of
        Some e \<Rightarrow> []
      | None \<Rightarrow> map (\<lambda>m. \<lparr>Method = m, Path = fst (GetPathTemplate route)\<rparr>) (fst (GetMethods route)))"

fun visitAll :: "'st WalkRouteFunc \<Rightarrow> RouteInfo list \<Rightarrow> 'st \<Rightarrow> error option \<times> 'st" where
  "visitAll fn [] st = (None, st)"
| "visitAll fn (r # rs) st =
     (case fn r st of
        (Some e, st1) \<Rightarrow> (Some e, st1)
      | (None, st1) \<Rightarrow> visitAll fn rs st1)"

text \<open>A route is walkable when its methods resolve only together with its path template.\<close>

definition walkable :: "mux_Route \<Rightarrow> bool" where
  "walkable route = (snd (GetMethods route) \<noteq> None \<or> snd (GetPathTemplate route) = None)"

text \<open>A callback that collects what it is given, and one that fails on a given method.\<close>

definition collect :: "RouteInfo list WalkRouteFunc" where
  "collect r st = (None, st @ [r])"

definition failOn :: "string \<Rightarrow> error \<Rightarrow> RouteInfo list WalkRouteFunc" where
  "failOn m e r st = (if Method r = m then (Some e, st @ [r]) else (None, st @ [r]))"

subsection \<open>Construction\<close>

text \<open>
  The options of the package. A pointer argument may be nil. \<open>EndpointOption\<close> is the option
  \<^verbatim>\<open>Endpoint(endpoint *url.URL)\<close>, renamed apart from the method \<^verbatim>\<open>Endpoint()\<close>.
\<close>

datatype ServerOption =
    Network string
  | Address string
  | EndpointOption "url_URL option"
  | Timeout Duration
  | Logger
  | Middleware "string list"
  | Filter "string list"
  | RequestVarsDecoder DecodeRequestFunc
  | RequestQueryDecoder DecodeRequestFunc
  | RequestDecoder DecodeRequestFunc
  | ResponseEncoder EncodeResponseFunc
  | ErrorEncoder EncodeErrorFunc
  | TLSConfig "tls_Config option"
  | StrictSlash bool
  | Listener "net_Listener option"
  | PathPrefix string
  | EnableHTTP3
  | HTTP3Listener "QUICEarlyListener option"

text \<open>
  The router library, as far as construction uses it: \<^verbatim>\<open>mux.NewRouter()\<close>, and
  \<^verbatim>\<open>r.PathPrefix(prefix).Subrouter()\<close>, a new router under the longer prefix that keeps the
  route configuration and has no handlers, middleware or routes of its own yet.
\<close>

definition mux_NewRouter :: mux_Router where
  "mux_NewRouter =
     \<lparr>rt_prefix = [], rt_strictSlash = False, NotFoundHandler = None,
      MethodNotAllowedHandler = None, rt_middlewares = [], rt_routes = []\<rparr>"

definition mux_Subrouter :: "string \<Rightarrow> mux_Router \<Rightarrow> mux_Router" where
  "mux_Subrouter prefix r =
     \<lparr>rt_prefix = rt_prefix r @ prefix, rt_strictSlash = rt_strictSlash r,
      NotFoundHandler = None, MethodNotAllowedHandler = None,
      rt_middlewares = [], rt_routes = []\<rparr>"

fun applyOption :: "ServerOption \<Rightarrow> Server \<Rightarrow> Server" where
  "applyOption (Network n) s = s\<lparr>network := n\<rparr>"
| "applyOption (Address a) s = s\<lparr>address := a\<rparr>"
| "applyOption (EndpointOption u) s = s\<lparr>endpoint := u\<rparr>"
| "applyOption (Timeout t) s = s\<lparr>timeout := t\<rparr>"
| "applyOption Logger s = s"
| "applyOption (Middleware m) s = s\<lparr>middleware := middleware s @ [MatcherUse m]\<rparr>"
| "applyOption (Filter fs) s = s\<lparr>filters := fs\<rparr>"
| "applyOption (RequestVarsDecoder d) s = s\<lparr>decVars := d\<rparr>"
| "applyOption (RequestQueryDecoder d) s = s\<lparr>decQuery := d\<rparr>"
| "applyOption (RequestDecoder d) s = s\<lparr>decBody := d\<rparr>"
| "applyOption (ResponseEncoder e) s = s\<lparr>enc := e\<rparr>"
| "applyOption (ErrorEncoder e) s = s\<lparr>ene := e\<rparr>"
| "applyOption (TLSConfig c) s = s\<lparr>tlsConf := c\<rparr>"
| "applyOption (StrictSlash b) s = s\<lparr>strictSlash := b\<rparr>"
| "applyOption (Listener l) s = s\<lparr>lis := l\<rparr>"
| "applyOption (PathPrefix prefix) s = s\<lparr>router := mux_Subrouter prefix (router s)\<rparr>"
| "applyOption EnableHTTP3 s = s\<lparr>enableHttp3 := True\<rparr>"
| "applyOption (HTTP3Listener l) s = s\<lparr>http3Lis := l\<rparr>"

text \<open>The loop \<^verbatim>\<open>for _, o := range opts { o(srv) }\<close>.\<close>

fun applyOptions :: "ServerOption list \<Rightarrow> Server \<Rightarrow> Server" where
  "applyOptions [] s = s"
| "applyOptions (opt # opts) s = applyOptions opts (applyOption opt s)"

text \<open>The struct literal of \<^verbatim>\<open>NewServer\<close>; fields it does not name are zero.\<close>

definition initialServer :: Server where
  "initialServer =
     \<lparr>httpsrv = None, lis = None, tlsConf = None, endpoint = None, err = None,
      network = ''tcp'', address = '':0'', timeout = 1 * time_Second,
      filters = [], middleware = [],
      decVars = DefaultRequestVars, decQuery = DefaultRequestQuery,
      decBody = DefaultRequestDecoder, enc = DefaultResponseEncoder,
      ene = DefaultErrorEncoder, strictSlash = True, router = mux_NewRouter,
      enableHttp3 = False, http3Lis = None, http3srv = None, trace = []\<rparr>"

text \<open>
  The part of \<^verbatim>\<open>NewServer\<close> after the options: configure the router, then build the one
  backend. \<open>FilterChainRouter fs\<close> is the handler \<^verbatim>\<open>FilterChain(fs...)(srv.router)\<close>.
\<close>

definition finishServer :: "Server \<Rightarrow> Server" where
  "finishServer srv =
     (let srv1 = srv\<lparr>router := (router srv)
                    \<lparr>rt_strictSlash := strictSlash srv,
                     NotFoundHandler := Some DefaultServeMux,
                     MethodNotAllowedHandler := Some DefaultServeMux,
                     rt_middlewares := rt_middlewares (router srv) @ [ServerFilter]\<rparr>\<rparr>;
          hdlr = FilterChainRouter (filters srv1)
      in if enableHttp3 srv1
         then emit (EvLog ''Server is HTTP3'')
                (srv1\<lparr>http3srv := Some \<lparr>h3_TLSConfig = tlsConf srv1, h3_Handler = hdlr\<rparr>\<rparr>)
         else srv1\<lparr>httpsrv := Some \<lparr>h_TLSConfig = tlsConf srv1, h_Handler = hdlr,
                                    h_BaseContext = None\<rparr>\<rparr>)"

definition NewServer :: "ServerOption list \<Rightarrow> Server" where
  "NewServer opts = finishServer (applyOptions opts initialServer)"

subsection \<open>Route registration and the public operations\<close>

text \<open>
  What the router library gives for the registrations of this package: a route made with
  a path or a path prefix has that template (under the router's prefix) and no methods; a
  route made with a header pair has no path of its own.
\<close>

definition mux_noMethods :: "string list \<times> error option" where
  "mux_noMethods = ([], Some (ErrExternal ''mux: route does not have methods''))"

definition mux_pathRoute :: "mux_Router \<Rightarrow> string \<Rightarrow> Handler \<Rightarrow> mux_Route" where
  "mux_pathRoute r path h =
     \<lparr>GetMethods = mux_noMethods, GetPathTemplate = (rt_prefix r @ path, None),
      rt_handler = Some h\<rparr>"

definition mux_headerRoute :: "mux_Router \<Rightarrow> string \<Rightarrow> string \<Rightarrow> Handler \<Rightarrow> mux_Route" where
  "mux_headerRoute r key val h =
     \<lparr>GetMethods = mux_noMethods,
      GetPathTemplate = (if rt_prefix r = [] then ([], Some (ErrExternal ''mux: route does not have a path''))
                         else (rt_prefix r, None)),
      rt_handler = Some h\<rparr>"

definition addRoute :: "mux_Route \<Rightarrow> Server \<Rightarrow> Server" where
  "addRoute route s = s\<lparr>router := (router s)\<lparr>rt_routes := rt_routes (router s) @ [route]\<rparr>\<rparr>"

definition Use :: "string \<Rightarrow> string list \<Rightarrow> Server \<Rightarrow> Server" where
  "Use selector m s = s\<lparr>middleware := middleware s @ [MatcherAdd selector m]\<rparr>"

definition Handle :: "string \<Rightarrow> Handler \<Rightarrow> Server \<Rightarrow> Server" where
  "Handle path h s = addRoute (mux_pathRoute (router s) path h) s"

definition HandlePrefix :: "string \<Rightarrow> Handler \<Rightarrow> Server \<Rightarrow> Server" where
  "HandlePrefix prefix h s = addRoute (mux_pathRoute (router s) prefix h) s"

definition HandleFunc :: "string \<Rightarrow> Handler \<Rightarrow> Server \<Rightarrow> Server" where
  "HandleFunc path h s = addRoute (mux_pathRoute (router s) path h) s"

definition HandleHeader :: "string \<Rightarrow> string \<Rightarrow> Handler \<Rightarrow> Server \<Rightarrow> Server" where
  "HandleHeader key val h s = addRoute (mux_headerRoute (router s) key val h) s"

text \<open>A call of a public method, and the Server after it.\<close>

datatype call =
    CallStart Context
  | CallStop Context
  | CallEndpoint
  | CallServeHTTP
  | CallWalkRoute
  | CallUse string "string list"
  | CallHandle string Handler
  | CallHandlePrefix string Handler
  | CallHandleFunc string Handler
  | CallHandleHeader string string Handler

fun after :: "env \<Rightarrow> call \<Rightarrow> Server \<Rightarrow> Server" where
  "after E (CallStart ctx) s = snd (Start E ctx s)"
| "after E (CallStop ctx) s = snd (Stop E ctx s)"
| "after E CallEndpoint s = snd (Endpoint E s)"
| "after E CallServeHTTP s = s"
| "after E CallWalkRoute s = s"
| "after E (CallUse selector m) s = Use selector m s"
| "after E (CallHandle path h) s = Handle path h s"
| "after E (CallHandlePrefix prefix h) s = HandlePrefix prefix h s"
| "after E (CallHandleFunc path h) s = HandleFunc path h s"
| "after E (CallHandleHeader key val h) s = HandleHeader key val h s"

fun afterAll :: "env \<Rightarrow> call list \<Rightarrow> Server \<Rightarrow> Server" where
  "afterAll E [] s = s"
| "afterAll E (c # cs) s = afterAll E cs (after E c s)"

text \<open>
  Modelled from the spec: the dispatch of the router library is not among the sources.
  The spec: a match operation "indicating no match, in which case response falls through
  to a not-found/method-not-allowed handler". A router field that is nil leaves the
  library's own handler in charge.
\<close>

datatype mux_miss = ErrNotFound | ErrMethodMismatch

definition mux_missHandler :: "mux_Router \<Rightarrow> mux_miss \<Rightarrow> Handler" where
  "mux_missHandler r m =
     (case m of
        ErrNotFound \<Rightarrow> (case NotFoundHandler r of Some h \<Rightarrow> h | None \<Rightarrow> mux_notFound)
      | ErrMethodMismatch \<Rightarrow>
          (case MethodNotAllowedHandler r of Some h \<Rightarrow> h | None \<Rightarrow> mux_methodNotAllowed))"

subsection \<open>Reading a run\<close>






text \<open>
  What the blocking serve call of the active backend returns, for a Server \<open>s1\<close> whose
  resolution has just succeeded (one log line precedes the call).
\<close>

definition serveReturn :: "env \<Rightarrow> Server \<Rightarrow> error option" where
  "serveReturn E s1 =
     (if enableHttp3 s1 then
        (case http3Lis s1 of
           None \<Rightarrow> None
         | Some l \<Rightarrow> http3srv_ServeListener E (Suc (length (trace s1))) l)
      else
        (case lis s1 of
           None \<Rightarrow> None
         | Some l \<Rightarrow>
             if tlsConf s1 \<noteq> None then httpsrv_ServeTLS E (Suc (length (trace s1))) l
             else httpsrv_Serve E (Suc (length (trace s1))) l))"

subsection \<open>Two concrete environments\<close>

text \<open>
  \<open>calmEnv\<close>: every bind succeeds on an ephemeral port of the wildcard host, the host
  extraction names the machine 192.168.0.7 and takes the port from the listener when it is
  given one and from the configured address otherwise, and serving ends with the
  server-closed sentinel. \<open>busyEnv\<close>: every bind fails, the first time because the address
  is in use and afterwards because permission is denied.
\<close>

definition portOf :: "string \<Rightarrow> string" where
  "portOf hostPort = rev (takeWhile (\<lambda>c. c \<noteq> CHR '':'') (rev hostPort))"

definition calmExtract :: "nat \<Rightarrow> string \<Rightarrow> string option \<Rightarrow> error + string" where
  "calmExtract n hostPort ln =
     Inr (''192.168.0.7:'' @ (case ln of None \<Rightarrow> portOf hostPort | Some a \<Rightarrow> portOf a))"

definition calmEnv :: env where
  "calmEnv =
     \<lparr>net_Listen = (\<lambda>n network a. Inr \<lparr>tcp_Addr = ''[::]:43210''\<rparr>),
      quic_ListenAddrEarly = (\<lambda>n a c. Inr \<lparr>quic_Addr = ''[::]:43211''\<rparr>),
      host_Extract = calmExtract,
      httpsrv_Serve = (\<lambda>n l. Some ErrServerClosed),
      httpsrv_ServeTLS = (\<lambda>n l. Some ErrServerClosed),
      http3srv_ServeListener = (\<lambda>n l. Some ErrServerClosed),
      httpsrv_Shutdown = (\<lambda>n c. None),
      http3srv_Close = (\<lambda>n. None)\<rparr>"

definition inUse :: error where
  "inUse = ErrExternal ''bind: address already in use''"

definition denied :: error where
  "denied = ErrExternal ''bind: permission denied''"

definition busyEnv :: env where
  "busyEnv =
     calmEnv\<lparr>net_Listen := (\<lambda>n network a. Inl (if n = 0 then inUse else denied)),
             quic_ListenAddrEarly := (\<lambda>n a c. Inl (if n \<le> 1 then inUse else denied))\<rparr>"

subsection \<open>Concrete servers\<close>







text \<open>
  A Server whose router holds three routes: \<open>/a\<close> for GET and POST, a route without
  methods, and \<open>/b\<close> for DELETE.
\<close>

definition methodRoute :: "string list \<Rightarrow> string \<Rightarrow> mux_Route" where
  "methodRoute ms path =
     \<lparr>GetMethods = (ms, None), GetPathTemplate = (path, None), rt_handler = Some (UserHandler path)\<rparr>"

definition walkServer :: Server where
  "walkServer =
     (NewServer [])\<lparr>router := (router (NewServer []))
        \<lparr>rt_routes := [methodRoute [''GET'', ''POST''] ''/a'',
                       mux_pathRoute (router (NewServer [])) ''/static'' (UserHandler ''files''),
                       methodRoute [''DELETE''] ''/b'']\<rparr>\<rparr>"

section \<open>Properties\<close>

subsection \<open>What resolution leaves alone\<close>

lemma bindListener_keeps:
  "bindListener E s = (r, s1) \<Longrightarrow>
     enableHttp3 s1 = enableHttp3 s \<and> httpsrv s1 = httpsrv s \<and> http3srv s1 = http3srv s \<and>
     tlsConf s1 = tlsConf s \<and> endpoint s1 = endpoint s \<and> address s1 = address s \<and>
     network s1 = network s \<and> router s1 = router s \<and> timeout s1 = timeout s"
  by (auto simp: bindListener_def emit_def split: if_splits sum.splits)

lemma bindListener_ok_listener:
  "bindListener E s = (None, s1) \<Longrightarrow>
     (if enableHttp3 s then http3Lis s1 \<noteq> None else lis s1 \<noteq> None)"
  by (auto simp: bindListener_def emit_def split: if_splits sum.splits)

lemma handleEndpoint_keeps:
  "handleEndpoint E ln s = (r, s1) \<Longrightarrow>
     enableHttp3 s1 = enableHttp3 s \<and> httpsrv s1 = httpsrv s \<and> http3srv s1 = http3srv s \<and>
     tlsConf s1 = tlsConf s \<and> lis s1 = lis s \<and> http3Lis s1 = http3Lis s \<and> address s1 = address s \<and>
     network s1 = network s \<and> router s1 = router s \<and> timeout s1 = timeout s"
  by (auto simp: handleEndpoint_def emit_def split: if_splits sum.splits)

lemma listenAndEndpoint_keeps:
  assumes "listenAndEndpoint E s = (r, s1)"
  shows "enableHttp3 s1 = enableHttp3 s \<and> httpsrv s1 = httpsrv s \<and> http3srv s1 = http3srv s \<and>
     tlsConf s1 = tlsConf s \<and> address s1 = address s \<and>
     network s1 = network s \<and> router s1 = router s \<and> timeout s1 = timeout s"
proof -
  obtain rb sb where b: "bindListener E s = (rb, sb)" by (cases "bindListener E s")
  obtain rh sh where h: "handleEndpoint E (map_option quic_Addr (http3Lis sb)) sb = (rh, sh)"
    by (cases "handleEndpoint E (map_option quic_Addr (http3Lis sb)) sb")
  from assms b h have "s1 = sb \<or> s1 = sh"
    by (auto simp: listenAndEndpoint_def split: option.splits)
  with bindListener_keeps[OF b] handleEndpoint_keeps[OF h] show ?thesis by auto
qed

lemma listenAndEndpoint_ok_listener:
  assumes "listenAndEndpoint E s = (None, s1)"
  shows "if enableHttp3 s then http3Lis s1 \<noteq> None else lis s1 \<noteq> None"
proof -
  obtain rb sb where b: "bindListener E s = (rb, sb)" by (cases "bindListener E s")
  obtain rh sh where h: "handleEndpoint E (map_option quic_Addr (http3Lis sb)) sb = (rh, sh)"
    by (cases "handleEndpoint E (map_option quic_Addr (http3Lis sb)) sb")
  from assms b h have "rb = None \<and> s1 = sh"
    by (auto simp: listenAndEndpoint_def split: option.splits)
  with bindListener_ok_listener[of E s sb] b handleEndpoint_keeps[OF h] show ?thesis by (auto split: if_splits)
qed


text \<open>The definitions a concrete run unfolds.\<close>

lemmas eval_defs =
  NewServer_def finishServer_def initialServer_def mux_NewRouter_def emit_def
  listenAndEndpoint_def bindListener_def handleEndpoint_def Endpoint_def
  endpoint_Scheme_def endpoint_NewEndpoint_def calmEnv_def calmExtract_def portOf_def
  busyEnv_def inUse_def denied_def Start_def startHTTP_def startHTTP3_def serveReturn_def Let_def



subsection \<open>Start and the serve result\<close>

text \<open>
  Claim C7. For every Server whose resolution step succeeds and whose active backend is
  ready to serve (it exists, and in HTTP3 mode the TLS configuration is present), let \<open>r\<close>
  be what the blocking serve call of the active backend returns. When \<open>r\<close> is the
  deliberate-shutdown signal (\<^verbatim>\<open>errors.Is(r, http.ErrServerClosed)\<close>), \<^verbatim>\<open>Start\<close> returns nil;
  when \<open>r\<close> is anything else, \<^verbatim>\<open>Start\<close> returns \<open>r\<close> unchanged.
\<close>

theorem C7_Start_translates_serve_result:
  assumes res: "listenAndEndpoint E s = (None, s1)"
    and be: "if enableHttp3 s then http3srv s \<noteq> None \<and> tlsConf s \<noteq> None else httpsrv s \<noteq> None"
  shows "(errors_Is (serveReturn E s1) ErrServerClosed \<longrightarrow> fst (Start E ctx s) = Return None) \<and>
         (\<not> errors_Is (serveReturn E s1) ErrServerClosed \<longrightarrow>
            fst (Start E ctx s) = Return (serveReturn E s1))"
proof (cases "enableHttp3 s")
  case True
  with listenAndEndpoint_ok_listener[OF res] obtain l where l: "http3Lis s1 = Some l" by auto
  from listenAndEndpoint_keeps[OF res] be True
  obtain h where h: "http3srv s1 = Some h" and t: "tlsConf s1 \<noteq> None" and e: "enableHttp3 s1" by auto
  have "fst (startHTTP3 E ctx s) = Return (serveReturn E s1)"
    using res l h t e by (auto simp add: startHTTP3_def serveReturn_def emit_def Let_def)
  with True show ?thesis by (auto simp add: Start_def split: prod.splits result.splits)
next
  case False
  with listenAndEndpoint_ok_listener[OF res] obtain l where l: "lis s1 = Some l" by auto
  from listenAndEndpoint_keeps[OF res] be False
  obtain h where h: "httpsrv s1 = Some h" and e: "\<not> enableHttp3 s1" by auto
  have "fst (startHTTP E ctx s) = Return (serveReturn E s1)"
    using res l h e by (simp add: startHTTP_def serveReturn_def emit_def Let_def)
  with False show ?thesis by (auto simp add: Start_def split: prod.splits result.splits)
qed


theorem C7_Start_translates_serve_result_witness:
  "fst (listenAndEndpoint calmEnv (NewServer [])) = None \<and>
   errors_Is (serveReturn calmEnv (snd (listenAndEndpoint calmEnv (NewServer [])))) ErrServerClosed \<and>
   fst (Start calmEnv Background (NewServer [])) = Return None"
proof -
  have f: "fst (listenAndEndpoint calmEnv (NewServer [])) = None"
    by (simp add: eval_defs)
  then have r: "listenAndEndpoint calmEnv (NewServer []) =
             (None, snd (listenAndEndpoint calmEnv (NewServer [])))"
    by (metis prod.collapse)
  have b: "if enableHttp3 (NewServer []) then http3srv (NewServer []) \<noteq> None \<and> tlsConf (NewServer []) \<noteq> None
           else httpsrv (NewServer []) \<noteq> None"
    by (simp add: eval_defs)
  have c: "errors_Is (serveReturn calmEnv (snd (listenAndEndpoint calmEnv (NewServer [])))) ErrServerClosed"
    by (simp add: eval_defs)
  from C7_Start_translates_serve_result[OF r b, of Background] c f show ?thesis by blast
qed

subsection \<open>What resolution adds to the trace\<close>





lemma listenAndEndpoint_cases:
  "snd (listenAndEndpoint E s) = snd (bindListener E s) \<or>
   snd (listenAndEndpoint E s) =
     snd (handleEndpoint E (map_option quic_Addr (http3Lis (snd (bindListener E s))))
            (snd (bindListener E s)))"
  by (auto simp: listenAndEndpoint_def split: prod.splits option.splits)


lemma listenAndEndpoint_snd_keeps:
  "enableHttp3 (snd (listenAndEndpoint E s)) = enableHttp3 s \<and>
   httpsrv (snd (listenAndEndpoint E s)) = httpsrv s \<and>
   http3srv (snd (listenAndEndpoint E s)) = http3srv s \<and>
   tlsConf (snd (listenAndEndpoint E s)) = tlsConf s \<and>
   address (snd (listenAndEndpoint E s)) = address s \<and>
   router (snd (listenAndEndpoint E s)) = router s \<and>
   timeout (snd (listenAndEndpoint E s)) = timeout s"
  using listenAndEndpoint_keeps[of E s "fst (listenAndEndpoint E s)" "snd (listenAndEndpoint E s)"]
  by simp

subsection \<open>Start in HTTP3 mode without TLS\<close>





subsection \<open>The stored failure\<close>








lemma Endpoint_snd: "snd (Endpoint E s) = snd (listenAndEndpoint E s)"
  by (auto simp: Endpoint_def split: prod.splits option.splits)









subsection \<open>Endpoint, called twice\<close>






lemma Endpoint_fst:
  "fst (Endpoint E s) =
     (case fst (listenAndEndpoint E s) of
        Some e \<Rightarrow> Inl e
      | None \<Rightarrow> Inr (endpoint (snd (listenAndEndpoint E s))))"
  by (auto simp: Endpoint_def split: prod.splits option.splits)






subsection \<open>Where the endpoint's host comes from\<close>

lemma resolved_host:
  assumes "endpoint s = None" and "fst (listenAndEndpoint E s) = None"
  shows "\<exists>url. endpoint (snd (listenAndEndpoint E s)) = Some url \<and>
               host_Extract E (length (trace (snd (bindListener E s)))) (address s)
                 (map_option quic_Addr (http3Lis (snd (bindListener E s)))) = Inr (url_Host url)"
proof -
  obtain rb sb where b: "bindListener E s = (rb, sb)" by (cases "bindListener E s")
  from bindListener_keeps[OF b] assms(1)
  have k: "endpoint sb = None" "address sb = address s" by simp_all
  from assms(2) b have "rb = None"
    by (auto simp: listenAndEndpoint_def split: option.splits prod.splits)
  with assms(2) b k show ?thesis
    by (auto simp: listenAndEndpoint_def handleEndpoint_def emit_def
          endpoint_NewEndpoint_def split: option.splits prod.splits sum.splits if_splits)
qed

lemma tcp_bind_keeps_http3Lis:
  "\<not> enableHttp3 s \<Longrightarrow> http3Lis (snd (bindListener E s)) = http3Lis s"
  by (auto simp: bindListener_def emit_def split: if_splits sum.splits)

text \<open>
  Claim C1, on the code. When no explicit endpoint was configured and \<^verbatim>\<open>Endpoint()\<close>
  succeeds, the host of the returned URL is what \<^verbatim>\<open>host.Extract\<close> gives for the configured
  address and the HTTP3 listener of the Server, in both modes. In HTTP3 mode that is the
  bound QUIC listener, as the claim says. In connection-oriented mode, where no HTTP3
  listener was supplied, it is a nil listener: the TCP listener that was just bound is not
  consulted, and the host is derived from the configured address alone.
\<close>

theorem C1_endpoint_host_source:
  assumes "endpoint s = None" and "fst (Endpoint E s) = Inr u"
  shows "(\<not> enableHttp3 s \<and> http3Lis s = None \<longrightarrow>
            (\<exists>url. u = Some url \<and>
               host_Extract E (length (trace (snd (bindListener E s)))) (address s) None =
                 Inr (url_Host url))) \<and>
         (enableHttp3 s \<longrightarrow>
            (\<exists>url l. u = Some url \<and> http3Lis (snd (Endpoint E s)) = Some l \<and>
               host_Extract E (length (trace (snd (bindListener E s)))) (address s)
                 (Some (quic_Addr l)) = Inr (url_Host url)))"
proof -
  from assms(2) have f: "fst (listenAndEndpoint E s) = None"
    and u: "u = endpoint (snd (listenAndEndpoint E s))"
    by (auto simp: Endpoint_fst split: option.splits)
  from resolved_host[OF assms(1) f] obtain url where
    url: "endpoint (snd (listenAndEndpoint E s)) = Some url"
    and ex: "host_Extract E (length (trace (snd (bindListener E s)))) (address s)
               (map_option quic_Addr (http3Lis (snd (bindListener E s)))) = Inr (url_Host url)"
    by blast
  have tcp: "\<not> enableHttp3 s \<and> http3Lis s = None \<Longrightarrow>
               host_Extract E (length (trace (snd (bindListener E s)))) (address s) None =
                 Inr (url_Host url)"
    using ex tcp_bind_keeps_http3Lis[of s E] by simp
  have h3: "enableHttp3 s \<Longrightarrow> \<exists>l. http3Lis (snd (Endpoint E s)) = Some l \<and>
               host_Extract E (length (trace (snd (bindListener E s)))) (address s)
                 (Some (quic_Addr l)) = Inr (url_Host url)"
  proof -
    assume e: "enableHttp3 s"
    have b: "fst (bindListener E s) = None"
      using f by (auto simp: listenAndEndpoint_def split: option.splits prod.splits)
    then have bb: "bindListener E s = (None, snd (bindListener E s))" by (metis prod.collapse)
    from bindListener_ok_listener[OF bb] e
    obtain l where l: "http3Lis (snd (bindListener E s)) = Some l" by auto
    have "http3Lis (snd (listenAndEndpoint E s)) = http3Lis (snd (bindListener E s))"
      using listenAndEndpoint_cases[of E s]
        handleEndpoint_keeps[of E "map_option quic_Addr (http3Lis (snd (bindListener E s)))"
          "snd (bindListener E s)"
          "fst (handleEndpoint E (map_option quic_Addr (http3Lis (snd (bindListener E s)))) (snd (bindListener E s)))"
          "snd (handleEndpoint E (map_option quic_Addr (http3Lis (snd (bindListener E s)))) (snd (bindListener E s)))"]
      by auto
    with ex l show ?thesis by (simp add: Endpoint_snd)
  qed
  show ?thesis using u url tcp h3 by auto
qed

text \<open>
  The default Server, connection-oriented on \<open>:0\<close>: the TCP listener is bound on port
  43210, and the endpoint carries port 0.
\<close>

theorem C1_endpoint_host_source_witness:
  "endpoint (NewServer []) = None \<and> \<not> enableHttp3 (NewServer []) \<and>
   http3Lis (NewServer []) = None \<and>
   lis (snd (Endpoint calmEnv (NewServer []))) = Some \<lparr>tcp_Addr = ''[::]:43210''\<rparr> \<and>
   fst (Endpoint calmEnv (NewServer [])) =
     Inr (Some \<lparr>url_Scheme = ''http'', url_Host = ''192.168.0.7:0''\<rparr>) \<and>
   host_Extract calmEnv (length (trace (snd (bindListener calmEnv (NewServer []))))) 
     (address (NewServer [])) None = Inr ''192.168.0.7:0''"
proof -
  have a: "endpoint (NewServer []) = None" by (simp add: eval_defs)
  have b: "fst (Endpoint calmEnv (NewServer [])) =
     Inr (Some \<lparr>url_Scheme = ''http'', url_Host = ''192.168.0.7:0''\<rparr>)"
    by (simp add: eval_defs)
  have c: "\<not> enableHttp3 (NewServer []) \<and> http3Lis (NewServer []) = None"
    by (simp add: eval_defs)
  have d: "lis (snd (Endpoint calmEnv (NewServer []))) = Some \<lparr>tcp_Addr = ''[::]:43210''\<rparr>"
    by (simp add: eval_defs)
  from C1_endpoint_host_source[OF a b] a b c d show ?thesis by auto
qed

subsection \<open>The wrapper built by filter\<close>








subsection \<open>The context the wrapper derives\<close>






subsection \<open>Walking the routes\<close>

lemma mux_Walk_append:
  "mux_Walk f (xs @ ys) st =
     (case mux_Walk f xs st of (Some e, st1) \<Rightarrow> (Some e, st1) | (None, st1) \<Rightarrow> mux_Walk f ys st1)"
  by (induction xs arbitrary: st) (auto split: prod.splits option.splits)

lemma visitAll_append:
  "visitAll fn (xs @ ys) st =
     (case visitAll fn xs st of (Some e, st1) \<Rightarrow> (Some e, st1) | (None, st1) \<Rightarrow> visitAll fn ys st1)"
  by (induction xs arbitrary: st) (auto split: prod.splits option.splits)

lemma rangeMethods_visitAll:
  "rangeMethods fn path ms st = visitAll fn (map (\<lambda>m. \<lparr>Method = m, Path = path\<rparr>) ms) st"
  by (induction ms arbitrary: st) (auto split: prod.splits option.splits)

lemma walkFn_walkable:
  "walkable route \<Longrightarrow> walkFn fn route st = visitAll fn (routeInfos route) st"
  by (auto simp: walkable_def walkFn_def routeInfos_def rangeMethods_visitAll
           split: prod.splits option.splits)

lemma mux_Walk_walkable:
  "(\<forall>r \<in> set rs. walkable r) \<Longrightarrow>
     mux_Walk (walkFn fn) rs st = visitAll fn (concat (map routeInfos rs)) st"
proof (induction rs arbitrary: st)
  case Nil
  then show ?case by simp
next
  case (Cons r rs)
  then have w: "walkFn fn r st = visitAll fn (routeInfos r) st" and
    ih: "\<And>st1. mux_Walk (walkFn fn) rs st1 = visitAll fn (concat (map routeInfos rs)) st1"
    by (simp_all add: walkFn_walkable)
  show ?case by (simp add: w ih visitAll_append split: prod.splits option.splits)
qed

lemma walkFn_skips:
  "snd (GetMethods route) \<noteq> None \<Longrightarrow> walkFn fn route st = (None, st)"
  by (auto simp: walkFn_def split: prod.splits option.splits)

lemma walkFn_aborts:
  assumes "GetMethods route = (ms1 @ m # ms2, None)" and "GetPathTemplate route = (p, None)"
    and "rangeMethods fn p ms1 st1 = (None, st2)"
    and "fn \<lparr>Method = m, Path = p\<rparr> st2 = (Some e, st3)"
  shows "walkFn fn route st1 = (Some e, st3)"
  using assms by (simp add: walkFn_def rangeMethods_visitAll visitAll_append)

text \<open>
  Claim C8. For every Server and every walk callback: when each route with resolvable
  methods also has a path template, \<^verbatim>\<open>WalkRoute\<close> runs the callback over the (method, path
  template) pairs of the registered routes, in order; when the callback returns an error
  at some method of some route, the walk stops there and \<^verbatim>\<open>WalkRoute\<close> returns that error
  unchanged, the later methods and routes unvisited; and a route whose methods cannot be
  resolved yields no pair and no error: the walk is the same with the route left out.
\<close>

theorem C8_WalkRoute:
  "((\<forall>r \<in> set (rt_routes (router s)). walkable r) \<longrightarrow>
      WalkRoute s fn st = visitAll fn (concat (map routeInfos (rt_routes (router s)))) st) \<and>
   (\<forall>pre route post ms1 m ms2 p st1 st2 st3 e.
      rt_routes (router s) = pre @ route # post \<and>
      mux_Walk (walkFn fn) pre st = (None, st1) \<and>
      GetMethods route = (ms1 @ m # ms2, None) \<and> GetPathTemplate route = (p, None) \<and>
      rangeMethods fn p ms1 st1 = (None, st2) \<and>
      fn \<lparr>Method = m, Path = p\<rparr> st2 = (Some e, st3) \<longrightarrow>
      WalkRoute s fn st = (Some e, st3)) \<and>
   (\<forall>pre route post.
      rt_routes (router s) = pre @ route # post \<and> snd (GetMethods route) \<noteq> None \<longrightarrow>
      routeInfos route = [] \<and>
      WalkRoute s fn st = WalkRoute (s\<lparr>router := (router s)\<lparr>rt_routes := pre @ post\<rparr>\<rparr>) fn st)"
proof (intro conjI allI impI)
  assume "\<forall>r \<in> set (rt_routes (router s)). walkable r"
  then show "WalkRoute s fn st = visitAll fn (concat (map routeInfos (rt_routes (router s)))) st"
    by (simp add: WalkRoute_def mux_Walk_walkable)
next
  fix pre route post ms1 m ms2 p st1 st2 st3 e
  assume a: "rt_routes (router s) = pre @ route # post \<and>
      mux_Walk (walkFn fn) pre st = (None, st1) \<and>
      GetMethods route = (ms1 @ m # ms2, None) \<and> GetPathTemplate route = (p, None) \<and>
      rangeMethods fn p ms1 st1 = (None, st2) \<and>
      fn \<lparr>Method = m, Path = p\<rparr> st2 = (Some e, st3)"
  then have "walkFn fn route st1 = (Some e, st3)" by (intro walkFn_aborts) auto
  with a show "WalkRoute s fn st = (Some e, st3)"
    by (simp add: WalkRoute_def mux_Walk_append)
next
  fix pre route post
  assume a: "rt_routes (router s) = pre @ route # post \<and> snd (GetMethods route) \<noteq> None"
  then show "routeInfos route = []" by (auto simp: routeInfos_def)
  from a have "walkFn fn route st1 = (None, st1)" for st1 by (simp add: walkFn_skips)
  with a show "WalkRoute s fn st = WalkRoute (s\<lparr>router := (router s)\<lparr>rt_routes := pre @ post\<rparr>\<rparr>) fn st"
    by (simp add: WalkRoute_def mux_Walk_append split: prod.splits option.splits)
qed

lemmas walk_eval_defs =
  walkServer_def methodRoute_def mux_pathRoute_def mux_noMethods_def collect_def failOn_def
  walkable_def routeInfos_def

theorem C8_WalkRoute_witness:
  "WalkRoute walkServer collect [] =
     (None, [\<lparr>Method = ''GET'', Path = ''/a''\<rparr>, \<lparr>Method = ''POST'', Path = ''/a''\<rparr>,
             \<lparr>Method = ''DELETE'', Path = ''/b''\<rparr>]) \<and>
   WalkRoute walkServer (failOn ''POST'' denied) [] =
     (Some denied, [\<lparr>Method = ''GET'', Path = ''/a''\<rparr>, \<lparr>Method = ''POST'', Path = ''/a''\<rparr>]) \<and>
   WalkRoute walkServer collect [] =
     WalkRoute (walkServer\<lparr>router := (router walkServer)
        \<lparr>rt_routes := [methodRoute [''GET'', ''POST''] ''/a''] @ [methodRoute [''DELETE''] ''/b'']\<rparr>\<rparr>)
       collect []"
proof -
  have w: "\<forall>r \<in> set (rt_routes (router walkServer)). walkable r"
    by (simp add: walk_eval_defs)
  have r: "rt_routes (router walkServer) =
             [methodRoute [''GET'', ''POST''] ''/a''] @
             mux_pathRoute (router (NewServer [])) ''/static'' (UserHandler ''files'') #
             [methodRoute [''DELETE''] ''/b'']"
    by (simp add: walkServer_def)
  have nm: "snd (GetMethods (mux_pathRoute (router (NewServer [])) ''/static'' (UserHandler ''files''))) \<noteq> None"
    by (simp add: mux_pathRoute_def mux_noMethods_def)
  have r2: "rt_routes (router walkServer) =
             [] @ methodRoute [''GET'', ''POST''] ''/a'' #
             [mux_pathRoute (router (NewServer [])) ''/static'' (UserHandler ''files''),
              methodRoute [''DELETE''] ''/b'']"
    by (simp add: walkServer_def)
  have pre: "mux_Walk (walkFn (failOn ''POST'' denied)) [] [] = (None, [])" by simp
  have gm: "GetMethods (methodRoute [''GET'', ''POST''] ''/a'') = ([''GET''] @ ''POST'' # [], None) \<and>
            GetPathTemplate (methodRoute [''GET'', ''POST''] ''/a'') = (''/a'', None)"
    by (simp add: methodRoute_def)
  have rm: "rangeMethods (failOn ''POST'' denied) ''/a'' [''GET''] [] =
              (None, [\<lparr>Method = ''GET'', Path = ''/a''\<rparr>])"
    by (simp add: failOn_def)
  have fl: "failOn ''POST'' denied \<lparr>Method = ''POST'', Path = ''/a''\<rparr> [\<lparr>Method = ''GET'', Path = ''/a''\<rparr>] =
              (Some denied, [\<lparr>Method = ''GET'', Path = ''/a''\<rparr>, \<lparr>Method = ''POST'', Path = ''/a''\<rparr>])"
    by (simp add: failOn_def)
  note t1 = C8_WalkRoute[of walkServer collect "[]"]
  note t2 = C8_WalkRoute[of walkServer "failOn ''POST'' denied" "[]"]
  from t1 w have a: "WalkRoute walkServer collect [] =
      visitAll collect (concat (map routeInfos (rt_routes (router walkServer)))) []" by blast
  have a': "visitAll collect (concat (map routeInfos (rt_routes (router walkServer)))) [] =
     (None, [\<lparr>Method = ''GET'', Path = ''/a''\<rparr>, \<lparr>Method = ''POST'', Path = ''/a''\<rparr>,
             \<lparr>Method = ''DELETE'', Path = ''/b''\<rparr>])"
    by (simp add: walk_eval_defs)
  from t2 r2 pre gm rm fl have b: "WalkRoute walkServer (failOn ''POST'' denied) [] =
     (Some denied, [\<lparr>Method = ''GET'', Path = ''/a''\<rparr>, \<lparr>Method = ''POST'', Path = ''/a''\<rparr>])"
    by blast
  from t1 r nm have c: "WalkRoute walkServer collect [] =
     WalkRoute (walkServer\<lparr>router := (router walkServer)
        \<lparr>rt_routes := [methodRoute [''GET'', ''POST''] ''/a''] @ [methodRoute [''DELETE''] ''/b'']\<rparr>\<rparr>)
       collect []" by blast
  from a a' b c show ?thesis by simp
qed

subsection \<open>One backend, chosen once\<close>

lemma applyOption_backends:
  "httpsrv (applyOption opt s) = httpsrv s \<and> http3srv (applyOption opt s) = http3srv s \<and>
   enableHttp3 (applyOption opt s) = (enableHttp3 s \<or> opt = EnableHTTP3)"
  by (cases opt) auto

lemma applyOptions_backends:
  "httpsrv (applyOptions opts s) = httpsrv s \<and> http3srv (applyOptions opts s) = http3srv s \<and>
   enableHttp3 (applyOptions opts s) = (enableHttp3 s \<or> EnableHTTP3 \<in> set opts)"
proof (induction opts arbitrary: s)
  case Nil
  then show ?case by simp
next
  case (Cons opt opts)
  show ?case using Cons.IH[of "applyOption opt s"] applyOption_backends[of opt s] by auto
qed

lemma NewServer_backends:
  "enableHttp3 (NewServer opts) = (EnableHTTP3 \<in> set opts) \<and>
   (http3srv (NewServer opts) \<noteq> None) = (EnableHTTP3 \<in> set opts) \<and>
   (httpsrv (NewServer opts) \<noteq> None) = (EnableHTTP3 \<notin> set opts)"
  using applyOptions_backends[of opts initialServer]
  by (auto simp: NewServer_def finishServer_def Let_def emit_def initialServer_def)

lemma Start_backends:
  "enableHttp3 (snd (Start E ctx s)) = enableHttp3 s \<and>
   http3srv (snd (Start E ctx s)) = http3srv s \<and>
   (httpsrv (snd (Start E ctx s)) \<noteq> None) = (httpsrv s \<noteq> None)"
  using listenAndEndpoint_keeps[of E s "fst (listenAndEndpoint E s)" "snd (listenAndEndpoint E s)"]
  by (cases "listenAndEndpoint E s")
     (auto simp: Start_def startHTTP_def startHTTP3_def emit_def Let_def
           split: option.splits result.splits if_splits)

lemma after_backends:
  "enableHttp3 (after E c s) = enableHttp3 s \<and>
   (http3srv (after E c s) \<noteq> None) = (http3srv s \<noteq> None) \<and>
   (httpsrv (after E c s) \<noteq> None) = (httpsrv s \<noteq> None)"
proof (cases c)
  case (CallStart ctx)
  then show ?thesis using Start_backends[of E ctx s] by simp
next
  case (CallStop ctx)
  then show ?thesis by (auto simp: Stop_def emit_def split: option.splits)
next
  case CallEndpoint
  then show ?thesis using listenAndEndpoint_snd_keeps[of E s] by (simp add: Endpoint_snd)
qed (auto simp: Use_def Handle_def HandlePrefix_def HandleFunc_def HandleHeader_def addRoute_def)

lemma afterAll_backends:
  "enableHttp3 (afterAll E cs s) = enableHttp3 s \<and>
   (http3srv (afterAll E cs s) \<noteq> None) = (http3srv s \<noteq> None) \<and>
   (httpsrv (afterAll E cs s) \<noteq> None) = (httpsrv s \<noteq> None)"
proof (induction cs arbitrary: s)
  case Nil
  then show ?case by simp
next
  case (Cons c cs)
  show ?case using Cons.IH[of "after E c s"] after_backends[of E c s] by simp
qed

text \<open>
  Claim C9. For every Server returned by \<^verbatim>\<open>NewServer\<close>, exactly one of the two backends is
  non-nil: the HTTP3 backend when the option \<^verbatim>\<open>EnableHTTP3\<close> was given, the connection-oriented
  one otherwise. After any sequence of public calls (\<^verbatim>\<open>Start\<close>, \<^verbatim>\<open>Stop\<close>, \<^verbatim>\<open>Endpoint\<close>,
  \<^verbatim>\<open>ServeHTTP\<close>, \<^verbatim>\<open>WalkRoute\<close>, \<^verbatim>\<open>Use\<close> and the route registrations) the mode is the same, the
  backend of that mode is still non-nil and the other one is still nil.
\<close>

theorem C9_one_backend:
  "enableHttp3 (NewServer opts) = (EnableHTTP3 \<in> set opts) \<and>
   (http3srv (NewServer opts) \<noteq> None) = enableHttp3 (NewServer opts) \<and>
   (httpsrv (NewServer opts) \<noteq> None) = (\<not> enableHttp3 (NewServer opts)) \<and>
   enableHttp3 (afterAll E cs (NewServer opts)) = enableHttp3 (NewServer opts) \<and>
   (http3srv (afterAll E cs (NewServer opts)) \<noteq> None) = enableHttp3 (NewServer opts) \<and>
   (httpsrv (afterAll E cs (NewServer opts)) \<noteq> None) = (\<not> enableHttp3 (NewServer opts))"
  using NewServer_backends[of opts] afterAll_backends[of E cs "NewServer opts"] by simp

theorem C9_one_backend_witness:
  "enableHttp3 (NewServer [EnableHTTP3, TLSConfig (Some (TlsMaterial ''cert''))]) \<and>
   http3srv (afterAll calmEnv [CallHandle ''/index'' (UserHandler ''index''), CallEndpoint,
                               CallStart Background, CallServeHTTP, CallStop Background]
              (NewServer [EnableHTTP3, TLSConfig (Some (TlsMaterial ''cert''))])) \<noteq> None \<and>
   httpsrv (afterAll calmEnv [CallHandle ''/index'' (UserHandler ''index''), CallEndpoint,
                               CallStart Background, CallServeHTTP, CallStop Background]
              (NewServer [EnableHTTP3, TLSConfig (Some (TlsMaterial ''cert''))])) = None"
proof -
  have e: "EnableHTTP3 \<in> set [EnableHTTP3, TLSConfig (Some (TlsMaterial ''cert''))]" by simp
  from C9_one_backend[of "[EnableHTTP3, TLSConfig (Some (TlsMaterial ''cert''))]" calmEnv
          "[CallHandle ''/index'' (UserHandler ''index''), CallEndpoint,
            CallStart Background, CallServeHTTP, CallStop Background]"] e
  show ?thesis by blast
qed

subsection \<open>The handlers for requests that match no route\<close>

lemma after_miss_handlers:
  "NotFoundHandler (router (after E c s)) = NotFoundHandler (router s) \<and>
   MethodNotAllowedHandler (router (after E c s)) = MethodNotAllowedHandler (router s)"
proof (cases c)
  case (CallStart ctx)
  have "router (snd (Start E ctx s)) = router s"
    using listenAndEndpoint_keeps[of E s "fst (listenAndEndpoint E s)" "snd (listenAndEndpoint E s)"]
    by (cases "listenAndEndpoint E s")
       (auto simp: Start_def startHTTP_def startHTTP3_def emit_def Let_def
             split: option.splits result.splits if_splits)
  then show ?thesis using CallStart by simp
next
  case (CallStop ctx)
  then show ?thesis by (auto simp: Stop_def emit_def split: option.splits)
next
  case CallEndpoint
  then show ?thesis using listenAndEndpoint_snd_keeps[of E s] by (simp add: Endpoint_snd)
qed (auto simp: Use_def Handle_def HandlePrefix_def HandleFunc_def HandleHeader_def addRoute_def)

lemma afterAll_miss_handlers:
  "NotFoundHandler (router (afterAll E cs s)) = NotFoundHandler (router s) \<and>
   MethodNotAllowedHandler (router (afterAll E cs s)) = MethodNotAllowedHandler (router s)"
proof (induction cs arbitrary: s)
  case Nil
  then show ?case by simp
next
  case (Cons c cs)
  show ?case using Cons.IH[of "after E c s"] after_miss_handlers[of E c s] by simp
qed

lemma NewServer_miss_handlers:
  "NotFoundHandler (router (NewServer opts)) = Some DefaultServeMux \<and>
   MethodNotAllowedHandler (router (NewServer opts)) = Some DefaultServeMux"
  by (simp add: NewServer_def finishServer_def Let_def emit_def)

text \<open>
  Claim C10. For every Server returned by \<^verbatim>\<open>NewServer\<close>, the not-found handler and the
  method-not-allowed handler of its router are both \<^verbatim>\<open>http.DefaultServeMux\<close>, and they stay so
  after any sequence of public calls: a request that matches no route, or a path but not
  its methods, falls through to the process-wide default mux.
\<close>

theorem C10_default_mux:
  "NotFoundHandler (router (NewServer opts)) = Some DefaultServeMux \<and>
   MethodNotAllowedHandler (router (NewServer opts)) = Some DefaultServeMux \<and>
   mux_missHandler (router (afterAll E cs (NewServer opts))) ErrNotFound = DefaultServeMux \<and>
   mux_missHandler (router (afterAll E cs (NewServer opts))) ErrMethodMismatch = DefaultServeMux"
  using NewServer_miss_handlers[of opts] afterAll_miss_handlers[of E cs "NewServer opts"]
  by (simp add: mux_missHandler_def)

theorem C10_default_mux_witness:
  "NotFoundHandler (router (NewServer [PathPrefix ''/api''])) = Some DefaultServeMux \<and>
   mux_missHandler (router (afterAll calmEnv [CallHandle ''/index'' (UserHandler ''index'')]
                              (NewServer [PathPrefix ''/api'']))) ErrMethodMismatch = DefaultServeMux"
  using C10_default_mux[of "[PathPrefix ''/api'']" calmEnv "[CallHandle ''/index'' (UserHandler ''index'')]"]
  by blast

end
